theory Spec2Isabelle
  imports Main "HOL-Library.Word" "HOL-Library.Multiset"
begin

section \<open>The MySQL session backend (pkg/services/session/mysql.go)\<close>

text \<open>
  The file holds two types: \<open>MysqlStore\<close>, the in-memory view of one session, and
  \<open>MysqlProvider\<close>, which owns the database handle. Every method is embedded as a
  function that takes the state it reads and returns the state it leaves:
  \<^item> the receiver \<open>s *MysqlStore\<close> is a record, passed in and returned updated;
  \<^item> the database behind the handle \<open>c *sql.DB\<close>, together with the process log,
    is a record \<open>world\<close>, threaded through every method that touches it;
  \<^item> Go's \<open>error\<close> results are values of a datatype (\<open>None\<close> is \<open>nil\<close>), a
    \<open>panic\<close> is the \<open>Inl\<close> side of a sum;
  \<^item> \<open>int64\<close> is a 64-bit word: \<open>+\<close> and \<open>*\<close> wrap, comparisons read it with
    \<open>sint\<close>;
  \<^item> each reading of a clock (\<open>time.Now().Unix()\<close>, the server's \<open>NOW()\<close>) is an
    argument of the method that reads it;
  \<^item> the gob codec of the session library (\<open>session.EncodeGob\<close>,
    \<open>session.DecodeGob\<close>) is outside this file and is a parameter.
  The reader/writer lock of the store is not modelled: every function is one
  uninterrupted call.
\<close>

subsection \<open>Values shared by both types\<close>

type_synonym int64 = "64 word"

type_synonym bytes = "8 word list"

text \<open>
  The errors the file meets: \<open>sql.ErrNoRows\<close>, any other error of the driver
  (with its message), an error of the gob codec, and the error built by
  \<open>fmt.Errorf\<close>. \<open>Error\<close> is the method \<open>err.Error()\<close>.
\<close>

datatype error = ErrNoRows | DriverError string | GobError string | Errorf string

fun Error :: "error \<Rightarrow> string" where
  "Error ErrNoRows = ''sql: no rows in result set''"
| "Error (DriverError m) = m"
| "Error (GobError m) = m"
| "Error (Errorf m) = m"

text \<open>
  The panics: the dereference of a \<open>nil\<close> pointer, the run-time error of a map
  operation on a key whose dynamic type has no hash, and \<open>panic(message)\<close>.
\<close>

datatype panic = NilPointerDereference | HashOfUnhashableType | Panic string

subsection \<open>The database behind the handle\<close>

text \<open>One row of the table \<open>session\<close>: the columns \<open>key\<close>, \<open>data\<close>, \<open>expiry\<close>.\<close>

record session_row =
  row_key :: string
  row_data :: bytes
  row_expiry :: int64

text \<open>The eight statements the file sends, with their parameters in the order of the \<open>?\<close>s.\<close>

datatype stmt =
    SelectDataExpiry string
  | SelectData string
  | InsertRow string bytes int64
  | UpdateData bytes int64 string
  | UpdateKey string string
  | DeleteKey string
  | DeleteExpired int64
  | SelectCount

text \<open>
  \<open>session\<close> is the table. \<open>issued\<close> is the history of statements sent through the
  handle, oldest first. \<open>faults\<close> is the environment's schedule of failures:
  \<open>faults w n\<close> is what the driver does with the \<open>n\<close>-th statement ever sent
  (counting from 0), \<open>None\<close> to execute it and \<open>Some m\<close> to fail with the error
  message \<open>m\<close> and leave the table as it is. \<open>logged\<close> holds the lines written by
  \<open>log.Printf\<close>, oldest first.
\<close>

record world =
  session :: "session_row list"
  faults :: "nat \<Rightarrow> string option"
  issued :: "stmt list"
  logged :: "string list"

text \<open>The outcome scheduled for the \<open>n\<close>-th statement from now.\<close>

definition outcome :: "world \<Rightarrow> nat \<Rightarrow> string option" where
  "outcome w n = faults w (length (issued w) + n)"

text \<open>Sending a statement: it joins the history, and its scheduled outcome is read.\<close>

definition send :: "stmt \<Rightarrow> world \<Rightarrow> string option \<times> world" where
  "send q w = (faults w (length (issued w)), w\<lparr>issued := issued w @ [q]\<rparr>)"

definition has_row :: "string \<Rightarrow> session_row list \<Rightarrow> bool" where
  "has_row k rs = (k \<in> set (map row_key rs))"

definition duplicate_entry :: error where
  "duplicate_entry = DriverError ''Error 1062: Duplicate entry for key PRIMARY''"

text \<open>\<open>QueryRow("SELECT data,expiry FROM session WHERE `key`=?", sid).Scan(&data, &expiry)\<close>\<close>

definition query_data_expiry :: "string \<Rightarrow> world \<Rightarrow> (error + bytes \<times> int64) \<times> world" where
  "query_data_expiry k w =
     (let (f, w') = send (SelectDataExpiry k) w in
      case f of
        Some m \<Rightarrow> (Inl (DriverError m), w')
      | None \<Rightarrow>
          (case find (\<lambda>r. row_key r = k) (session w') of
             None \<Rightarrow> (Inl ErrNoRows, w')
           | Some r \<Rightarrow> (Inr (row_data r, row_expiry r), w')))"

text \<open>\<open>QueryRow("SELECT data FROM session WHERE `key`=?", sid).Scan(&data)\<close>\<close>

definition query_data :: "string \<Rightarrow> world \<Rightarrow> (error + bytes) \<times> world" where
  "query_data k w =
     (let (f, w') = send (SelectData k) w in
      case f of
        Some m \<Rightarrow> (Inl (DriverError m), w')
      | None \<Rightarrow>
          (case find (\<lambda>r. row_key r = k) (session w') of
             None \<Rightarrow> (Inl ErrNoRows, w')
           | Some r \<Rightarrow> (Inr (row_data r), w')))"

text \<open>
  Modelled from the spec: the schema of the table is not in the sources; the spec
  gives \<open>key\<close> as the unique primary key, so a statement that would leave two
  rows with one key fails with the server's duplicate-entry error.

  \<open>Exec("INSERT INTO session(`key`,data,expiry) VALUES(?,?,?)", k, d, e)\<close>
\<close>

definition exec_insert :: "string \<Rightarrow> bytes \<Rightarrow> int64 \<Rightarrow> world \<Rightarrow> error option \<times> world" where
  "exec_insert k d e w =
     (let (f, w') = send (InsertRow k d e) w in
      case f of
        Some m \<Rightarrow> (Some (DriverError m), w')
      | None \<Rightarrow>
          if has_row k (session w') then (Some duplicate_entry, w')
          else (None, w'\<lparr>session := session w' @ [\<lparr>row_key = k, row_data = d, row_expiry = e\<rparr>]\<rparr>))"

text \<open>\<open>Exec("UPDATE session SET data=?, expiry=? WHERE `key`=?", d, e, k)\<close>\<close>

definition set_data_expiry :: "bytes \<Rightarrow> int64 \<Rightarrow> string \<Rightarrow> session_row \<Rightarrow> session_row" where
  "set_data_expiry d e k r = (if row_key r = k then r\<lparr>row_data := d, row_expiry := e\<rparr> else r)"

definition exec_update_data :: "bytes \<Rightarrow> int64 \<Rightarrow> string \<Rightarrow> world \<Rightarrow> error option \<times> world" where
  "exec_update_data d e k w =
     (let (f, w') = send (UpdateData d e k) w in
      case f of
        Some m \<Rightarrow> (Some (DriverError m), w')
      | None \<Rightarrow> (None, w'\<lparr>session := map (set_data_expiry d e k) (session w')\<rparr>))"

text \<open>\<open>Exec("UPDATE session SET `key`=? WHERE `key`=?", new, old)\<close>\<close>

definition set_key :: "string \<Rightarrow> string \<Rightarrow> session_row \<Rightarrow> session_row" where
  "set_key new old r = (if row_key r = old then r\<lparr>row_key := new\<rparr> else r)"

definition exec_update_key :: "string \<Rightarrow> string \<Rightarrow> world \<Rightarrow> error option \<times> world" where
  "exec_update_key new old w =
     (let (f, w') = send (UpdateKey new old) w in
      case f of
        Some m \<Rightarrow> (Some (DriverError m), w')
      | None \<Rightarrow>
          if new \<noteq> old \<and> has_row old (session w') \<and> has_row new (session w')
          then (Some duplicate_entry, w')
          else (None, w'\<lparr>session := map (set_key new old) (session w')\<rparr>))"

text \<open>\<open>Exec("DELETE FROM session WHERE `key`=?", k)\<close>\<close>

definition exec_delete_key :: "string \<Rightarrow> world \<Rightarrow> error option \<times> world" where
  "exec_delete_key k w =
     (let (f, w') = send (DeleteKey k) w in
      case f of
        Some m \<Rightarrow> (Some (DriverError m), w')
      | None \<Rightarrow> (None, w'\<lparr>session := filter (\<lambda>r. row_key r \<noteq> k) (session w')\<rparr>))"

text \<open>
  \<open>Exec("DELETE FROM session WHERE expiry + ? <= UNIX_TIMESTAMP(NOW())", expire)\<close>.
  The server evaluates the condition on integers that do not wrap; \<open>now\<close> is the
  server's clock at the statement.
\<close>

definition expired :: "int64 \<Rightarrow> int64 \<Rightarrow> session_row \<Rightarrow> bool" where
  "expired now ex r = (sint (row_expiry r) + sint ex \<le> sint now)"

definition exec_delete_expired :: "int64 \<Rightarrow> int64 \<Rightarrow> world \<Rightarrow> error option \<times> world" where
  "exec_delete_expired now ex w =
     (let (f, w') = send (DeleteExpired ex) w in
      case f of
        Some m \<Rightarrow> (Some (DriverError m), w')
      | None \<Rightarrow> (None, w'\<lparr>session := filter (\<lambda>r. \<not> expired now ex r) (session w')\<rparr>))"

text \<open>\<open>QueryRow("SELECT COUNT(*) AS NUM FROM session").Scan(&total)\<close>\<close>

definition query_count :: "world \<Rightarrow> (error + int) \<times> world" where
  "query_count w =
     (let (f, w') = send SelectCount w in
      case f of
        Some m \<Rightarrow> (Inl (DriverError m), w')
      | None \<Rightarrow> (Inr (int (length (session w'))), w'))"

text \<open>\<open>log.Printf\<close> with the line already formatted.\<close>

definition log_Printf :: "string \<Rightarrow> world \<Rightarrow> world" where
  "log_Printf line w = w\<lparr>logged := logged w @ [line]\<rparr>"

subsection \<open>MysqlStore\<close>

text \<open>
  The map of a store is a \<open>map[interface{}]interface{}\<close>. What a key of type
  \<open>interface{}\<close> does in a Go map depends on its dynamic value, in three ways:
  \<^item> \<open>Key k\<close>: a value of a hashable dynamic type that equals itself (an integer,
    a string, a pointer, a float that is a number, an array or a struct of such);
  \<^item> \<open>NaN k\<close>: a value of a hashable dynamic type that does not equal itself (a
    floating-point NaN, or an array or a struct with one inside). The map
    stores an entry under it that no lookup and no \<open>delete\<close> ever finds;
  \<^item> \<open>Unhashable k\<close>: a value of a dynamic type with no hash (a slice, a map, a
    function, or an array or a struct with one inside). Every map operation
    on it panics, before the map is touched.
  So a map is its entries under the keys that equal themselves, a partial
  function, and the entries under the others, which Go keeps in no order. A
  lookup that finds nothing gives \<open>None\<close>, Go's \<open>nil\<close> interface. The map is
  allocated, as every map that \<open>Read\<close> builds is.
\<close>

datatype 'k go_key = Key 'k | NaN 'k | Unhashable 'k

record ('k, 'v) go_map =
  entries :: "'k \<rightharpoonup> 'v"
  nan_entries :: "('k \<times> 'v) multiset"

text \<open>\<open>make(map[interface{}]interface{})\<close>\<close>

definition make_map :: "('k, 'v) go_map" where
  "make_map = \<lparr>entries = Map.empty, nan_entries = {#}\<rparr>"

text \<open>\<open>m[key] = val\<close>\<close>

definition mapassign :: "'k go_key \<Rightarrow> 'v \<Rightarrow> ('k, 'v) go_map \<Rightarrow> panic + ('k, 'v) go_map" where
  "mapassign key val m =
     (case key of
        Key k \<Rightarrow> Inr (m\<lparr>entries := (entries m)(k \<mapsto> val)\<rparr>)
      | NaN k \<Rightarrow> Inr (m\<lparr>nan_entries := add_mset (k, val) (nan_entries m)\<rparr>)
      | Unhashable k \<Rightarrow> Inl HashOfUnhashableType)"

text \<open>\<open>m[key]\<close>\<close>

definition mapaccess :: "'k go_key \<Rightarrow> ('k, 'v) go_map \<Rightarrow> panic + 'v option" where
  "mapaccess key m =
     (case key of
        Key k \<Rightarrow> Inr (entries m k)
      | NaN k \<Rightarrow> Inr None
      | Unhashable k \<Rightarrow> Inl HashOfUnhashableType)"

text \<open>\<open>delete(m, key)\<close>\<close>

definition mapdelete :: "'k go_key \<Rightarrow> ('k, 'v) go_map \<Rightarrow> panic + ('k, 'v) go_map" where
  "mapdelete key m =
     (case key of
        Key k \<Rightarrow> Inr (m\<lparr>entries := (entries m)(k := None)\<rparr>)
      | NaN k \<Rightarrow> Inr m
      | Unhashable k \<Rightarrow> Inl HashOfUnhashableType)"

text \<open>
  The fields \<open>sid\<close>, \<open>data\<close>, \<open>expiry\<close> and \<open>dirty\<close> of the struct. The handle \<open>c\<close>
  is the \<open>world\<close> argument of \<open>Release\<close>. A method that panics returns \<open>Inl\<close> and
  no store: the store is then as the caller passed it, since in \<open>Set\<close> and
  \<open>Delete\<close> the map operation stands before the assignment to \<open>dirty\<close>.
\<close>

record ('k, 'v) MysqlStore =
  sid :: string
  data :: "('k, 'v) go_map"
  expiry :: int64
  dirty :: bool

definition NewMysqlStore :: "string \<Rightarrow> ('k, 'v) go_map \<Rightarrow> int64 \<Rightarrow> ('k, 'v) MysqlStore" where
  "NewMysqlStore i kv e = \<lparr>sid = i, data = kv, expiry = e, dirty = False\<rparr>"

definition Set ::
  "'k go_key \<Rightarrow> 'v \<Rightarrow> ('k, 'v) MysqlStore \<Rightarrow> panic + error option \<times> ('k, 'v) MysqlStore" where
  "Set key val s =
     (case mapassign key val (data s) of
        Inl p \<Rightarrow> Inl p
      | Inr m \<Rightarrow> Inr (None, s\<lparr>data := m, dirty := True\<rparr>))"

definition Get :: "'k go_key \<Rightarrow> ('k, 'v) MysqlStore \<Rightarrow> panic + 'v option" where
  "Get key s = mapaccess key (data s)"

definition Delete ::
  "'k go_key \<Rightarrow> ('k, 'v) MysqlStore \<Rightarrow> panic + error option \<times> ('k, 'v) MysqlStore" where
  "Delete key s =
     (case mapdelete key (data s) of
        Inl p \<Rightarrow> Inl p
      | Inr m \<Rightarrow> Inr (None, s\<lparr>data := m, dirty := True\<rparr>))"

definition ID :: "('k, 'v) MysqlStore \<Rightarrow> string" where
  "ID s = sid s"

definition Flush :: "('k, 'v) MysqlStore \<Rightarrow> error option \<times> ('k, 'v) MysqlStore" where
  "Flush s = (None, s\<lparr>data := make_map, dirty := True\<rparr>)"

text \<open>
  \<open>Release\<close>: \<open>now\<close> is the reading of \<open>time.Now().Unix()\<close>. The comparison
  \<open>(s.expiry+60) >= newExpiry\<close> is on \<open>int64\<close>: the sum wraps, the order is signed.
\<close>

definition Release ::
  "(('k, 'v) go_map \<Rightarrow> error + bytes) \<Rightarrow> int64 \<Rightarrow> ('k, 'v) MysqlStore \<Rightarrow> world
     \<Rightarrow> error option \<times> ('k, 'v) MysqlStore \<times> world" where
  "Release EncodeGob now s w =
     (let newExpiry = now in
      if \<not> dirty s \<and> sint newExpiry \<le> sint (expiry s + 60) then (None, s, w)
      else
        case EncodeGob (data s) of
          Inl err \<Rightarrow> (Some err, s, w)
        | Inr d \<Rightarrow>
            (let (err, w') = exec_update_data d newExpiry (sid s) w
             in (err, s\<lparr>dirty := False, expiry := newExpiry\<rparr>, w')))"

subsection \<open>MysqlProvider\<close>

text \<open>
  The handle \<open>*sql.DB\<close> as \<open>Init\<close> sees it: the one setting the file makes on it.
  A \<open>nil\<close> handle is \<open>None\<close>. In \<open>Init\<close> the functions \<open>sql.Open\<close> and \<open>Ping\<close> of
  the database library are parameters, and so is the package constant
  \<open>sessionConnMaxLifetime\<close>, which is declared in another file.
\<close>

record sql_DB =
  connMaxLifetime :: int64

record MysqlProvider =
  c :: "sql_DB option"
  expire :: int64

text \<open>
  \<open>SetConnMaxLifetime\<close> of the database library: a negative duration is stored
  as 0.
\<close>

definition SetConnMaxLifetime :: "int64 \<Rightarrow> sql_DB \<Rightarrow> sql_DB" where
  "SetConnMaxLifetime d db = db\<lparr>connMaxLifetime := (if sint d < 0 then 0 else d)\<rparr>"

definition time_Second :: int64 where
  "time_Second = 1000000000"

text \<open>
  \<open>Init\<close>: the call \<open>p.c.SetConnMaxLifetime(...)\<close> stands before the test of
  \<open>err\<close>; a method of \<open>*sql.DB\<close> called on \<open>nil\<close> dereferences it.
\<close>

definition Init ::
  "(string \<Rightarrow> string \<Rightarrow> sql_DB option \<times> error option) \<Rightarrow> (sql_DB \<Rightarrow> error option) \<Rightarrow> int64
     \<Rightarrow> int64 \<Rightarrow> string \<Rightarrow> MysqlProvider \<Rightarrow> panic + error option \<times> MysqlProvider" where
  "Init sql_Open Ping sessionConnMaxLifetime ex connStr p =
     (let p1 = p\<lparr>expire := ex\<rparr>;
          (h, err) = sql_Open ''mysql'' connStr;
          p2 = p1\<lparr>c := h\<rparr>
      in case c p2 of
           None \<Rightarrow> Inl NilPointerDereference
         | Some db \<Rightarrow>
             (let db' = SetConnMaxLifetime (time_Second * sessionConnMaxLifetime) db;
                  p3 = p2\<lparr>c := Some db'\<rparr>
              in if err \<noteq> None then Inr (err, p3) else Inr (Ping db', p3)))"

text \<open>
  The other methods use the provider only through its handle, which they take
  as opened: the database behind it is their \<open>world\<close> argument. \<open>GC\<close> also reads
  \<open>p.expire\<close>.

  \<open>Read\<close>: \<open>now\<close> is the reading of \<open>time.Now().Unix()\<close> that initialises
  \<open>expiry\<close>; \<open>Scan\<close> overwrites \<open>data\<close> and \<open>expiry\<close> only when it finds a row.
\<close>

definition Read ::
  "(bytes \<Rightarrow> error + ('k, 'v) go_map) \<Rightarrow> int64 \<Rightarrow> string \<Rightarrow> world
     \<Rightarrow> (error + ('k, 'v) MysqlStore) \<times> world" where
  "Read DecodeGob now i w =
     (let (r, w1) = query_data_expiry i w;
          (err, d, e) = (case r of Inl x \<Rightarrow> (Some x, [], now) | Inr (d, e) \<Rightarrow> (None, d, e));
          (err, w2) = (if err = Some ErrNoRows then exec_insert i [] e w1 else (err, w1))
      in case err of
           Some x \<Rightarrow> (Inl x, w2)
         | None \<Rightarrow>
             if length d = 0 then (Inr (NewMysqlStore i make_map e), w2)
             else
               (case DecodeGob d of
                  Inl x \<Rightarrow> (Inl x, w2)
                | Inr kv \<Rightarrow> (Inr (NewMysqlStore i kv e), w2)))"

definition queryExists :: "string \<Rightarrow> world \<Rightarrow> (bool \<times> error option) \<times> world" where
  "queryExists i w =
     (let (r, w') = query_data i w;
          err = (case r of Inl x \<Rightarrow> Some x | Inr d \<Rightarrow> None)
      in if err \<noteq> None \<and> err \<noteq> Some ErrNoRows then ((False, err), w')
         else ((err \<noteq> Some ErrNoRows, None), w'))"

definition Exist :: "string \<Rightarrow> world \<Rightarrow> bool \<times> world" where
  "Exist i w =
     (let ((exists, err), w1) = queryExists i w;
          ((exists, err), w2) = (if err \<noteq> None then queryExists i w1 else ((exists, err), w1))
      in case err of
           Some x \<Rightarrow>
             (False, log_Printf (''session/mysql: error checking if session exists: '' @ Error x) w2)
         | None \<Rightarrow> (exists, w2))"

definition Destory :: "string \<Rightarrow> world \<Rightarrow> error option \<times> world" where
  "Destory i w = exec_delete_key i w"

text \<open>
  \<open>Regenerate\<close>: \<open>now_insert\<close> is the clock reading passed to the placeholder
  \<open>INSERT\<close>, \<open>now_read\<close> the one taken by the closing \<open>Read\<close>.
\<close>

definition already_exists :: "string \<Rightarrow> error" where
  "already_exists i = Errorf (''new sid '' @ [CHR 0x27] @ i @ [CHR 0x27] @ '' already exists'')"

definition Regenerate ::
  "(bytes \<Rightarrow> error + ('k, 'v) go_map) \<Rightarrow> int64 \<Rightarrow> int64 \<Rightarrow> string \<Rightarrow> string \<Rightarrow> world
     \<Rightarrow> (error + ('k, 'v) MysqlStore) \<times> world" where
  "Regenerate DecodeGob now_insert now_read oldsid i w =
     (let (new_exists, w1) = Exist i w in
      if new_exists then (Inl (already_exists i), w1)
      else
        (let (old_exists, w2) = Exist oldsid w1;
             (err, w3) = (if \<not> old_exists then exec_insert oldsid [] now_insert w2 else (None, w2))
         in case err of
              Some x \<Rightarrow> (Inl x, w3)
            | None \<Rightarrow>
                (let (err, w4) = exec_update_key i oldsid w3
                 in case err of
                      Some x \<Rightarrow> (Inl x, w4)
                    | None \<Rightarrow> Read DecodeGob now_read i w4)))"

definition Count :: "world \<Rightarrow> (panic + int) \<times> world" where
  "Count w =
     (let (r, w') = query_count w
      in case r of
           Inl err \<Rightarrow> (Inl (Panic (''session/mysql: error counting records: '' @ Error err)), w')
         | Inr num \<Rightarrow> (Inr num, w'))"

text \<open>
  \<open>GC\<close>: \<open>now1\<close> is the server's clock at the first \<open>DELETE\<close>, \<open>now2\<close> its clock at
  the second one, when there is a second one.
\<close>

definition GC :: "int64 \<Rightarrow> int64 \<Rightarrow> MysqlProvider \<Rightarrow> world \<Rightarrow> world" where
  "GC now1 now2 p w =
     (let (err, w1) = exec_delete_expired now1 (expire p) w;
          (err, w2) = (if err \<noteq> None then exec_delete_expired now2 (expire p) w1 else (err, w1))
      in case err of
           Some x \<Rightarrow> log_Printf (''session/mysql: error garbage collecting: '' @ Error x) w2
         | None \<Rightarrow> w2)"

subsection \<open>The existence checks, read off the schedule\<close>

text \<open>
  What an existence check does is fixed by the table and by the outcomes of its
  one or two queries. For a check whose first query is the \<open>n\<close>-th statement from
  now: \<open>queries\<close> is the number of queries it sends, \<open>sees\<close> its answer, and
  \<open>complaint\<close> what it writes to the log. \<open>after_checks\<close> is the state behind the
  two checks of \<open>Regenerate\<close>, the one for the new id and then the one for the
  old id, and \<open>checks\<close> the number of queries the two have sent.
\<close>

definition queries :: "world \<Rightarrow> nat \<Rightarrow> nat" where
  "queries w n = (if outcome w n = None then 1 else 2)"

definition sees :: "world \<Rightarrow> nat \<Rightarrow> string \<Rightarrow> bool" where
  "sees w n i = (has_row i (session w) \<and> (outcome w n = None \<or> outcome w (Suc n) = None))"

definition complaint :: "world \<Rightarrow> nat \<Rightarrow> string list" where
  "complaint w n =
     (case outcome w n of
        None \<Rightarrow> []
      | Some m \<Rightarrow>
          (case outcome w (Suc n) of
             None \<Rightarrow> []
           | Some m' \<Rightarrow> [''session/mysql: error checking if session exists: '' @ m']))"

definition checks :: "world \<Rightarrow> nat" where
  "checks w = queries w 0 + queries w (queries w 0)"

definition after_checks :: "string \<Rightarrow> string \<Rightarrow> world \<Rightarrow> world" where
  "after_checks i oldsid w =
     w\<lparr>issued := issued w @ replicate (queries w 0) (SelectData i) @
                  replicate (queries w (queries w 0)) (SelectData oldsid),
       logged := logged w @ complaint w 0 @ complaint w (queries w 0)\<rparr>"

section \<open>Example states\<close>

text \<open>Concrete stores and databases on which the theorems below are instantiated.\<close>

definition fresh_store :: "(nat, nat) MysqlStore" where
  "fresh_store = \<lparr>sid = ''s1'', data = make_map, expiry = 1000, dirty = False\<rparr>"

definition dirty_store :: "(nat, nat) MysqlStore" where
  "dirty_store =
     \<lparr>sid = ''s1'', data = \<lparr>entries = [1 \<mapsto> 2], nan_entries = {#}\<rparr>, expiry = 1000,
      dirty = True\<rparr>"

definition one_row_world :: world where
  "one_row_world =
     \<lparr>session = [\<lparr>row_key = ''s1'', row_data = [], row_expiry = 1000\<rparr>],
      faults = (\<lambda>n. None), issued = [], logged = []\<rparr>"

definition failing_world :: world where
  "failing_world =
     \<lparr>session = [\<lparr>row_key = ''s1'', row_data = [], row_expiry = 1000\<rparr>],
      faults = (\<lambda>n. Some ''invalid connection''), issued = [], logged = []\<rparr>"

definition empty_world :: world where
  "empty_world = \<lparr>session = [], faults = (\<lambda>n. None), issued = [], logged = []\<rparr>"

text \<open>The same database, with the \<open>k\<close>-th statement failing and every other one executing.\<close>

definition failing_at :: "nat \<Rightarrow> world \<Rightarrow> world" where
  "failing_at k w = w\<lparr>faults := (\<lambda>n. if n = k then Some ''invalid connection'' else None)\<rparr>"

text \<open>Two rows for the sweep at time 10000 with a lifetime of 3600 seconds.\<close>

definition two_row_world :: world where
  "two_row_world =
     \<lparr>session = [\<lparr>row_key = ''a'', row_data = [], row_expiry = 6000\<rparr>,
                 \<lparr>row_key = ''b'', row_data = [], row_expiry = 9900\<rparr>],
      faults = (\<lambda>n. None), issued = [], logged = []\<rparr>"

definition blob_world :: world where
  "blob_world =
     \<lparr>session = [\<lparr>row_key = ''s2'', row_data = [1, 2, 3], row_expiry = 500\<rparr>],
      faults = (\<lambda>n. None), issued = [], logged = []\<rparr>"

text \<open>A row for \<open>new\<close>, behind a connection whose first two statements fail.\<close>

definition taken_world :: world where
  "taken_world =
     \<lparr>session = [\<lparr>row_key = ''new'', row_data = [9], row_expiry = 500\<rparr>],
      faults = (\<lambda>n. if n < 2 then Some ''invalid connection'' else None),
      issued = [], logged = []\<rparr>"

text \<open>The same database, with the statements numbered in \<open>ks\<close> failing.\<close>

definition failing_on :: "nat list \<Rightarrow> world \<Rightarrow> world" where
  "failing_on ks w =
     w\<lparr>faults := (\<lambda>n. if n \<in> set ks then Some ''invalid connection'' else None)\<rparr>"

text \<open>Rows for \<open>new\<close> and for \<open>old\<close>, behind a connection whose first two statements fail.\<close>

definition both_taken_world :: world where
  "both_taken_world =
     \<lparr>session = [\<lparr>row_key = ''new'', row_data = [9], row_expiry = 500\<rparr>,
                 \<lparr>row_key = ''old'', row_data = [], row_expiry = 600\<rparr>],
      faults = (\<lambda>n. if n < 2 then Some ''invalid connection'' else None),
      issued = [], logged = []\<rparr>"

section \<open>MysqlStore: the properties\<close>

subsection \<open>Set and Get\<close>

text \<open>
  C3, as stated: for every key, \<open>Set(k, v)\<close> followed by \<open>Get(k)\<close> returns \<open>v\<close>, and
  \<open>Set\<close> returns no error. Not for every key of type \<open>interface{}\<close>: under a NaN
  the value is stored where no lookup finds it, so \<open>Get\<close> returns \<open>nil\<close>; and on a
  key of unhashable dynamic type \<open>Set\<close> does not return at all.
\<close>

theorem Set_then_Get_counterexample:
  "Set (NaN 0) 7 fresh_store =
     Inr (None, fresh_store\<lparr>data := \<lparr>entries = Map.empty, nan_entries = {#(0, 7)#}\<rparr>,
                             dirty := True\<rparr>) \<and>
   Get (NaN 0) (fresh_store\<lparr>data := \<lparr>entries = Map.empty, nan_entries = {#(0, 7)#}\<rparr>,
                             dirty := True\<rparr>) = Inr None \<and>
   Set (Unhashable 0) 7 fresh_store = Inl HashOfUnhashableType"
  by (simp add: Set_def Get_def mapassign_def mapaccess_def fresh_store_def make_map_def)

text \<open>
  C3, amended. On one store, for every value \<open>v\<close>: for every key \<open>k\<close> of hashable
  dynamic type that equals itself, \<open>Set(k, v)\<close> returns no error and marks the
  store dirty, and the \<open>Get(k)\<close> that follows returns \<open>v\<close>; for a key that is a
  NaN, \<open>Set\<close> returns no error and marks the store dirty as well, and the \<open>Get\<close>
  that follows returns \<open>nil\<close>; for a key of unhashable dynamic type, \<open>Set\<close> and
  \<open>Get\<close> panic.
\<close>

theorem Set_then_Get:
  "(\<exists>s'. Set (Key k) v s = Inr (None, s') \<and> dirty s' \<and> Get (Key k) s' = Inr (Some v)) \<and>
   (\<exists>s'. Set (NaN k) v s = Inr (None, s') \<and> dirty s' \<and> Get (NaN k) s' = Inr None) \<and>
   Set (Unhashable k) v s = Inl HashOfUnhashableType \<and>
   Get (Unhashable k) s = Inl HashOfUnhashableType"
  by (simp add: Set_def Get_def mapassign_def mapaccess_def)

subsection \<open>Delete\<close>

text \<open>
  C9, as stated: for every key, \<open>Delete(k)\<close> marks the store dirty and returns no
  error. On a key of unhashable dynamic type \<open>delete(s.data, key)\<close> panics, and
  the assignment to \<open>dirty\<close> behind it is not reached: the clean store stays
  clean.
\<close>

theorem Delete_unhashable_counterexample:
  "Delete (Unhashable 0) fresh_store = Inl HashOfUnhashableType \<and> \<not> dirty fresh_store"
  by (simp add: Delete_def mapdelete_def fresh_store_def)

lemma mapdelete_absent:
  "entries m k = None \<Longrightarrow> m\<lparr>entries := (entries m)(k := None)\<rparr> = m"
proof -
  assume "entries m k = None"
  then have "(entries m)(k := None) = entries m"
    by (simp add: fun_upd_idem)
  then show ?thesis by simp
qed

text \<open>
  C9, amended. For every key \<open>k\<close> of hashable dynamic type, a NaN included,
  \<open>Delete(k)\<close> returns no error and marks the store dirty whether or not \<open>k\<close> is in
  the map; when \<open>k\<close> is absent, and always when it is a NaN, the map is the same
  afterwards. A \<open>Release\<close> that follows therefore takes the write-back path: with
  the map encoded to \<open>d\<close>, it sends the \<open>UPDATE\<close> of the row. For a key of
  unhashable dynamic type \<open>Delete\<close> panics.
\<close>

theorem Delete_marks_dirty:
  "(\<exists>s'. Delete (Key k) s = Inr (None, s') \<and> dirty s' \<and>
      (entries (data s) k = None \<longrightarrow> data s' = data s) \<and>
      (\<forall>d. EncodeGob (data s') = Inr d \<longrightarrow>
         issued (snd (snd (Release EncodeGob now s' w))) =
           issued w @ [UpdateData d now (sid s)])) \<and>
   (\<exists>s'. Delete (NaN k) s = Inr (None, s') \<and> dirty s' \<and> data s' = data s \<and>
      (\<forall>d. EncodeGob (data s') = Inr d \<longrightarrow>
         issued (snd (snd (Release EncodeGob now s' w))) =
           issued w @ [UpdateData d now (sid s)])) \<and>
   Delete (Unhashable k) s = Inl HashOfUnhashableType"
  by (auto simp: Delete_def mapdelete_def mapdelete_absent Release_def exec_update_data_def
      send_def split: option.splits)

text \<open>
  On a clean store read a moment ago, \<open>Release\<close> alone sends nothing; after deleting a
  key that was never there, it sends the \<open>UPDATE\<close>.
\<close>

theorem Delete_marks_dirty_witness:
  "entries (data fresh_store) 5 = None \<and>
   Release (\<lambda>m. Inr []) 1000 fresh_store one_row_world = (None, fresh_store, one_row_world) \<and>
   Delete (Key 5) fresh_store = Inr (None, fresh_store\<lparr>dirty := True\<rparr>) \<and>
   Delete (NaN 5) fresh_store = Inr (None, fresh_store\<lparr>dirty := True\<rparr>) \<and>
   issued (snd (snd (Release (\<lambda>m. Inr []) 1000 (fresh_store\<lparr>dirty := True\<rparr>) one_row_world))) =
     [UpdateData [] 1000 ''s1'']"
  using Delete_marks_dirty [where k = 5 and s = fresh_store and now = 1000 and w = one_row_world
      and EncodeGob = "\<lambda>m. Inr []"]
  by (simp add: fresh_store_def one_row_world_def make_map_def Release_def Delete_def
      mapdelete_def exec_update_data_def send_def)

subsection \<open>Release\<close>

text \<open>
  The sum \<open>s.expiry+60\<close> is the mathematical one unless \<open>expiry\<close> is within 60 of the
  largest \<open>int64\<close>.
\<close>

lemma int64_add_60:
  fixes e :: int64
  assumes "sint e \<le> 2 ^ 63 - 61"
  shows "sint (e + 60) = sint e + 60"
proof -
  have lo: "- (2 ^ 63) \<le> sint e"
    using sint_ge [of e] by simp
  have "sint (e + 60) = signed_take_bit 63 (sint e + 60)"
    by (simp add: sint_word_add)
  also have "\<dots> = sint e + 60"
    using lo assms by (intro signed_take_bit_int_eq_self) simp_all
  finally show ?thesis .
qed

text \<open>
  C1. The skip rule of \<open>Release\<close>, with \<open>expiry + 60\<close> and the comparison as the
  code computes them on \<open>int64\<close>. If the store is clean and \<open>expiry + 60 \<ge> now\<close>,
  \<open>Release\<close> returns no error and leaves the store and the database as they
  were: no statement is sent. If the store is dirty or \<open>expiry + 60 < now\<close>, and
  the map encodes to \<open>d\<close>, \<open>Release\<close> sends the \<open>UPDATE\<close> with \<open>d\<close>, \<open>now\<close> and the
  session id, sets \<open>expiry\<close> to \<open>now\<close> and clears \<open>dirty\<close>; when the driver executes
  the statement, the row of that id holds \<open>d\<close> and \<open>now\<close>.
\<close>

theorem Release_skip_rule:
  "(\<not> dirty s \<and> sint now \<le> sint (expiry s + 60) \<longrightarrow> Release EncodeGob now s w = (None, s, w)) \<and>
   ((dirty s \<or> sint (expiry s + 60) < sint now) \<and> EncodeGob (data s) = Inr d \<longrightarrow>
      (case Release EncodeGob now s w of (err, s', w') \<Rightarrow>
         issued w' = issued w @ [UpdateData d now (sid s)] \<and>
         (outcome w 0 = None \<longrightarrow>
            err = None \<and> session w' = map (set_data_expiry d now (sid s)) (session w)) \<and>
         s' = s\<lparr>dirty := False, expiry := now\<rparr>))"
  by (auto simp: Release_def exec_update_data_def send_def outcome_def split: option.splits)

text \<open>
  A clean store with expiry 1000: at \<open>now = 1060\<close> the release is skipped, at
  \<open>now = 1061\<close> the row is written.
\<close>

theorem Release_skip_rule_witness:
  "Release (\<lambda>m. Inr []) 1060 fresh_store one_row_world = (None, fresh_store, one_row_world) \<and>
   (case Release (\<lambda>m. Inr [7]) 1061 fresh_store one_row_world of (err, s', w') \<Rightarrow>
      issued w' = [UpdateData [7] 1061 ''s1''] \<and> err = None \<and>
      session w' = [\<lparr>row_key = ''s1'', row_data = [7], row_expiry = 1061\<rparr>] \<and>
      expiry s' = 1061 \<and> \<not> dirty s')"
  using
    Release_skip_rule [where s = fresh_store and now = 1060 and EncodeGob = "\<lambda>m. Inr []"
      and w = one_row_world]
    Release_skip_rule [where s = fresh_store and now = 1061 and EncodeGob = "\<lambda>m. Inr [7]"
      and d = "[7]" and w = one_row_world]
  by (simp add: fresh_store_def one_row_world_def outcome_def set_data_expiry_def
      split: prod.splits)

text \<open>
  The two error exits of the write-back path. An encode error is returned
  before anything is touched. The error of the \<open>UPDATE\<close> is returned too, but
  behind the two assignments: the store comes back clean, with \<open>expiry\<close> at
  \<open>now\<close>, although nothing was written.
\<close>

lemma Release_encode_fails:
  "dirty s \<or> sint (expiry s + 60) < sint now \<Longrightarrow> EncodeGob (data s) = Inl e \<Longrightarrow>
   Release EncodeGob now s w = (Some e, s, w)"
  by (auto simp: Release_def)

lemma Release_update_fails:
  "dirty s \<or> sint (expiry s + 60) < sint now \<Longrightarrow> EncodeGob (data s) = Inr d \<Longrightarrow>
   outcome w 0 = Some m \<Longrightarrow>
   Release EncodeGob now s w =
     (Some (DriverError m), s\<lparr>dirty := False, expiry := now\<rparr>,
      w\<lparr>issued := issued w @ [UpdateData d now (sid s)]\<rparr>)"
  by (auto simp: Release_def exec_update_data_def send_def outcome_def)

text \<open>
  C2. On the write-back path \<open>dirty\<close> is to be cleared and \<open>expiry\<close> set only when
  the row update succeeds, the store being left as it was on an error. The
  code does otherwise on a failed update, and loses the session's changes by
  it. A dirty store with expiry 1000 is released at 2000 while the \<open>UPDATE\<close>
  fails: \<open>Release\<close> returns the error, and the store is clean with expiry 2000.
  It is released again at 2030, the connection working: the skip rule holds,
  \<open>Release\<close> returns no error and sends nothing, and the row still holds the old
  blob and the old expiry.
\<close>

theorem Release_failed_update_marks_clean:
  "Release (\<lambda>m. Inr [7]) 2000 dirty_store (failing_at 0 one_row_world) =
     (Some (DriverError ''invalid connection''),
      dirty_store\<lparr>dirty := False, expiry := 2000\<rparr>,
      failing_at 0 one_row_world\<lparr>issued := [UpdateData [7] 2000 ''s1'']\<rparr>) \<and>
   dirty dirty_store \<and> expiry dirty_store = 1000 \<and>
   Release (\<lambda>m. Inr [7]) 2030 (dirty_store\<lparr>dirty := False, expiry := 2000\<rparr>)
       (failing_at 0 one_row_world\<lparr>issued := [UpdateData [7] 2000 ''s1'']\<rparr>) =
     (None, dirty_store\<lparr>dirty := False, expiry := 2000\<rparr>,
      failing_at 0 one_row_world\<lparr>issued := [UpdateData [7] 2000 ''s1'']\<rparr>) \<and>
   session (failing_at 0 one_row_world\<lparr>issued := [UpdateData [7] 2000 ''s1'']\<rparr>) =
     [\<lparr>row_key = ''s1'', row_data = [], row_expiry = 1000\<rparr>]"
  by (simp add: Release_def exec_update_data_def send_def dirty_store_def one_row_world_def
      failing_at_def)

section \<open>MysqlProvider: the properties\<close>

subsection \<open>Rows and statements\<close>

lemma find_key_None: "find (\<lambda>r. row_key r = k) rs = None \<longleftrightarrow> \<not> has_row k rs"
  by (auto simp: has_row_def find_None_iff)

lemma find_key_Some: "has_row k rs \<Longrightarrow> \<exists>r. find (\<lambda>r. row_key r = k) rs = Some r"
  using find_key_None [of k rs] by auto

lemma find_key_SomeD:
  "find (\<lambda>r. row_key r = k) rs = Some r \<Longrightarrow> has_row k rs \<and> row_key r = k"
  by (induction rs) (auto simp: has_row_def split: if_splits)

lemma find_key_append:
  "\<not> has_row k rs \<Longrightarrow> find (\<lambda>r. row_key r = k) (rs @ rs') = find (\<lambda>r. row_key r = k) rs'"
  by (induction rs) (auto simp: has_row_def)

lemma has_row_append: "has_row k (rs @ rs') \<longleftrightarrow> has_row k rs \<or> has_row k rs'"
  by (auto simp: has_row_def)

lemma has_row_single: "has_row k [r] \<longleftrightarrow> row_key r = k"
  by (auto simp: has_row_def)

lemma set_key_absent: "\<not> has_row old rs \<Longrightarrow> map (set_key new old) rs = rs"
  by (induction rs) (auto simp: has_row_def set_key_def)

text \<open>The schedule seen from a later state: statements sent move it forward.\<close>

lemma outcome_issued [simp]:
  "outcome (w\<lparr>issued := issued w @ qs\<rparr>) n = outcome w (length qs + n)"
  by (simp add: outcome_def add.assoc)

lemma outcome_session [simp]: "outcome (w\<lparr>session := rs\<rparr>) n = outcome w n"
  by (simp add: outcome_def)

lemma exec_insert_ok:
  "outcome w 0 = None \<Longrightarrow> \<not> has_row k (session w) \<Longrightarrow>
   exec_insert k d e w =
     (None, w\<lparr>issued := issued w @ [InsertRow k d e],
              session := session w @ [\<lparr>row_key = k, row_data = d, row_expiry = e\<rparr>]\<rparr>)"
  by (simp add: exec_insert_def send_def outcome_def)

lemma exec_update_key_ok:
  "outcome w 0 = None \<Longrightarrow>
   exec_update_key new old w =
     (if new \<noteq> old \<and> has_row old (session w) \<and> has_row new (session w)
      then (Some duplicate_entry, w\<lparr>issued := issued w @ [UpdateKey new old]\<rparr>)
      else (None, w\<lparr>issued := issued w @ [UpdateKey new old],
                    session := map (set_key new old) (session w)\<rparr>))"
  by (auto simp: exec_update_key_def send_def outcome_def)

lemma query_data_expiry_ok:
  "outcome w 0 = None \<Longrightarrow>
   query_data_expiry k w =
     (case find (\<lambda>r. row_key r = k) (session w) of
        None \<Rightarrow> Inl ErrNoRows
      | Some r \<Rightarrow> Inr (row_data r, row_expiry r),
      w\<lparr>issued := issued w @ [SelectDataExpiry k]\<rparr>)"
  by (simp add: query_data_expiry_def send_def outcome_def split: option.splits)

lemma statement_fails:
  "outcome w 0 = Some m \<Longrightarrow>
   exec_insert k d e w = (Some (DriverError m), w\<lparr>issued := issued w @ [InsertRow k d e]\<rparr>) \<and>
   exec_update_key new old w =
     (Some (DriverError m), w\<lparr>issued := issued w @ [UpdateKey new old]\<rparr>) \<and>
   query_data_expiry k w = (Inl (DriverError m), w\<lparr>issued := issued w @ [SelectDataExpiry k]\<rparr>)"
  by (simp add: exec_insert_def exec_update_key_def query_data_expiry_def send_def outcome_def)

subsection \<open>Exist\<close>

lemma Exist_first_try:
  "outcome w 0 = None \<Longrightarrow>
   Exist i w = (has_row i (session w), w\<lparr>issued := issued w @ [SelectData i]\<rparr>)"
  by (auto simp: Exist_def queryExists_def query_data_def send_def outcome_def log_Printf_def
      find_key_None dest: find_key_Some find_key_SomeD split: option.splits)

lemma Exist_second_try:
  "outcome w 0 = Some m \<Longrightarrow> outcome w 1 = None \<Longrightarrow>
   Exist i w = (has_row i (session w), w\<lparr>issued := issued w @ [SelectData i, SelectData i]\<rparr>)"
  by (auto simp: Exist_def queryExists_def query_data_def send_def outcome_def log_Printf_def
      find_key_None dest: find_key_Some find_key_SomeD split: option.splits)

lemma Exist_gives_up:
  "outcome w 0 = Some m \<Longrightarrow> outcome w 1 = Some m' \<Longrightarrow>
   Exist i w =
     (False,
      w\<lparr>issued := issued w @ [SelectData i, SelectData i],
        logged := logged w @ [''session/mysql: error checking if session exists: '' @ m']\<rparr>)"
  by (simp add: Exist_def queryExists_def query_data_def send_def outcome_def log_Printf_def)

text \<open>
  C7. \<open>Exist(id)\<close>, by the outcome of its query. When the first query executes,
  \<open>Exist\<close> sends that one statement and returns whether the table has a row for
  \<open>id\<close>: "no rows" is \<open>false\<close> at once, a row is \<open>true\<close>. When the first query
  fails, \<open>Exist\<close> sends the query once more and, if that one executes, returns
  whether the row is there. When the second query fails too, \<open>Exist\<close> writes one
  line to the log and returns \<open>false\<close>; it sends no third query.
\<close>

theorem Exist_retry:
  "(outcome w 0 = None \<longrightarrow>
      Exist i w = (has_row i (session w), w\<lparr>issued := issued w @ [SelectData i]\<rparr>)) \<and>
   (\<forall>m. outcome w 0 = Some m \<and> outcome w 1 = None \<longrightarrow>
      Exist i w =
        (has_row i (session w), w\<lparr>issued := issued w @ [SelectData i, SelectData i]\<rparr>)) \<and>
   (\<forall>m m'. outcome w 0 = Some m \<and> outcome w 1 = Some m' \<longrightarrow>
      Exist i w =
        (False,
         w\<lparr>issued := issued w @ [SelectData i, SelectData i],
           logged := logged w @ [''session/mysql: error checking if session exists: '' @ m']\<rparr>))"
  using Exist_first_try Exist_second_try Exist_gives_up by blast

theorem Exist_retry_witness:
  "Exist ''s1'' one_row_world = (True, one_row_world\<lparr>issued := [SelectData ''s1'']\<rparr>) \<and>
   Exist ''s9'' one_row_world = (False, one_row_world\<lparr>issued := [SelectData ''s9'']\<rparr>) \<and>
   Exist ''s1'' (failing_at 0 one_row_world) =
     (True, failing_at 0 one_row_world\<lparr>issued := [SelectData ''s1'', SelectData ''s1'']\<rparr>) \<and>
   Exist ''s1'' failing_world =
     (False,
      failing_world
        \<lparr>issued := [SelectData ''s1'', SelectData ''s1''],
         logged := [''session/mysql: error checking if session exists: invalid connection'']\<rparr>)"
  using Exist_retry [where w = one_row_world and i = "''s1''"]
    Exist_retry [where w = one_row_world and i = "''s9''"]
    Exist_retry [where w = "failing_at 0 one_row_world" and i = "''s1''"]
    Exist_retry [where w = failing_world and i = "''s1''"]
  by (simp add: one_row_world_def failing_world_def failing_at_def outcome_def has_row_def)

subsection \<open>Count\<close>

text \<open>
  C8. \<open>Count()\<close> sends the count query once. When the query executes, \<open>Count\<close>
  returns the number of rows of the table. When the query fails, \<open>Count\<close> panics
  with the error's message: it returns neither an error value nor a number.
\<close>

theorem Count_total_or_panic:
  "(outcome w 0 = None \<longrightarrow>
      Count w = (Inr (int (length (session w))), w\<lparr>issued := issued w @ [SelectCount]\<rparr>)) \<and>
   (\<forall>m. outcome w 0 = Some m \<longrightarrow>
      Count w =
        (Inl (Panic (''session/mysql: error counting records: '' @ m)),
         w\<lparr>issued := issued w @ [SelectCount]\<rparr>))"
  by (auto simp: Count_def query_count_def send_def outcome_def)

theorem Count_total_or_panic_witness:
  "Count two_row_world = (Inr 2, two_row_world\<lparr>issued := [SelectCount]\<rparr>) \<and>
   Count failing_world =
     (Inl (Panic ''session/mysql: error counting records: invalid connection''),
      failing_world\<lparr>issued := [SelectCount]\<rparr>)"
  using Count_total_or_panic [where w = two_row_world]
    Count_total_or_panic [where w = failing_world]
  by (simp add: two_row_world_def failing_world_def outcome_def)

subsection \<open>GC\<close>

text \<open>
  C4. \<open>GC()\<close> has no result and no panic of its own: it returns the database it
  leaves. When the first \<open>DELETE\<close> executes, the table keeps exactly the rows with
  \<open>expiry + expire > now\<close>, each as it was and in the same order, and nothing else
  is sent. When the first \<open>DELETE\<close> fails, it is sent once more, and if that one
  executes the table is swept in the same way. When both fail, the table is
  as before, one line is written to the log, and no third \<open>DELETE\<close> is sent.
\<close>

theorem GC_deletes_expired:
  "(outcome w 0 = None \<longrightarrow>
      GC first_now retry_now p w =
        w\<lparr>issued := issued w @ [DeleteExpired (expire p)],
          session :=
            filter (\<lambda>r. \<not> sint (row_expiry r) + sint (expire p) \<le> sint first_now) (session w)\<rparr>) \<and>
   (\<forall>m. outcome w 0 = Some m \<and> outcome w 1 = None \<longrightarrow>
      GC first_now retry_now p w =
        w\<lparr>issued := issued w @ [DeleteExpired (expire p), DeleteExpired (expire p)],
          session :=
            filter (\<lambda>r. \<not> sint (row_expiry r) + sint (expire p) \<le> sint retry_now) (session w)\<rparr>) \<and>
   (\<forall>m m'. outcome w 0 = Some m \<and> outcome w 1 = Some m' \<longrightarrow>
      GC first_now retry_now p w =
        w\<lparr>issued := issued w @ [DeleteExpired (expire p), DeleteExpired (expire p)],
          logged := logged w @ [''session/mysql: error garbage collecting: '' @ m']\<rparr>)"
  by (auto simp: GC_def exec_delete_expired_def expired_def send_def outcome_def log_Printf_def)

text \<open>
  The scenario of the specification: a lifetime of 3600 seconds at time 10000; the
  row written at 6000 goes, the row written at 9900 stays.
\<close>

theorem GC_deletes_expired_witness:
  "GC 10000 10000 \<lparr>c = Some \<lparr>connMaxLifetime = 0\<rparr>, expire = 3600\<rparr> two_row_world =
     two_row_world
       \<lparr>issued := [DeleteExpired 3600],
        session := [\<lparr>row_key = ''b'', row_data = [], row_expiry = 9900\<rparr>]\<rparr> \<and>
   GC 10000 10000 \<lparr>c = Some \<lparr>connMaxLifetime = 0\<rparr>, expire = 3600\<rparr> (failing_at 0 two_row_world) =
     failing_at 0 two_row_world
       \<lparr>issued := [DeleteExpired 3600, DeleteExpired 3600],
        session := [\<lparr>row_key = ''b'', row_data = [], row_expiry = 9900\<rparr>]\<rparr> \<and>
   GC 10000 10000 \<lparr>c = Some \<lparr>connMaxLifetime = 0\<rparr>, expire = 3600\<rparr> failing_world =
     failing_world
       \<lparr>issued := [DeleteExpired 3600, DeleteExpired 3600],
        logged := [''session/mysql: error garbage collecting: invalid connection'']\<rparr>"
  using GC_deletes_expired [where w = two_row_world and first_now = 10000 and retry_now = 10000
      and p = "\<lparr>c = Some \<lparr>connMaxLifetime = 0\<rparr>, expire = 3600\<rparr>"]
    GC_deletes_expired [where w = "failing_at 0 two_row_world" and first_now = 10000 and retry_now = 10000
      and p = "\<lparr>c = Some \<lparr>connMaxLifetime = 0\<rparr>, expire = 3600\<rparr>"]
    GC_deletes_expired [where w = failing_world and first_now = 10000 and retry_now = 10000
      and p = "\<lparr>c = Some \<lparr>connMaxLifetime = 0\<rparr>, expire = 3600\<rparr>"]
  by (simp add: two_row_world_def failing_world_def failing_at_def outcome_def)

subsection \<open>Init\<close>

text \<open>
  C10. \<open>Init\<close> calls \<open>SetConnMaxLifetime\<close> on the handle before it looks at the error
  of \<open>sql.Open\<close>. Whenever \<open>sql.Open\<close> yields a \<open>nil\<close> handle, \<open>Init\<close> panics on the
  dereference; so whenever \<open>Init\<close> returns at all, the handle was not \<open>nil\<close>, and
  the return of the open error is reached only with a handle: there the
  lifetime has already been set on it (as 0 when the product is negative).
\<close>

theorem Init_nil_handle_panics:
  "(\<forall>e. sql_Open ''mysql'' connStr = (None, e) \<longrightarrow>
      Init sql_Open Ping lifetime ex connStr p = Inl NilPointerDereference) \<and>
   (\<forall>r p'. Init sql_Open Ping lifetime ex connStr p = Inr (r, p') \<longrightarrow>
      (\<exists>db. fst (sql_Open ''mysql'' connStr) = Some db)) \<and>
   (\<forall>db e. sql_Open ''mysql'' connStr = (Some db, Some e) \<longrightarrow>
      Init sql_Open Ping lifetime ex connStr p =
        Inr (Some e,
             p\<lparr>expire := ex,
               c := Some (db\<lparr>connMaxLifetime :=
                           (if sint (1000000000 * lifetime) < 0 then 0
                            else 1000000000 * lifetime)\<rparr>)\<rparr>))"
  by (auto simp: Init_def SetConnMaxLifetime_def time_Second_def Let_def
      split: prod.splits option.splits)

theorem Init_nil_handle_panics_witness:
  "Init (\<lambda>driver dsn. (None, Some (DriverError ''invalid DSN''))) (\<lambda>db. None) 14400 86400
     ''dsn'' \<lparr>c = None, expire = 0\<rparr> = Inl NilPointerDereference \<and>
   Init (\<lambda>driver dsn. (Some \<lparr>connMaxLifetime = 0\<rparr>, None)) (\<lambda>db. None) 14400 86400
     ''dsn'' \<lparr>c = None, expire = 0\<rparr> =
     Inr (None, \<lparr>c = Some \<lparr>connMaxLifetime = 14400000000000\<rparr>, expire = 86400\<rparr>) \<and>
   Init (\<lambda>driver dsn. (Some \<lparr>connMaxLifetime = 0\<rparr>, Some (DriverError ''invalid DSN'')))
     (\<lambda>db. None) 14400 86400 ''dsn'' \<lparr>c = None, expire = 0\<rparr> =
     Inr (Some (DriverError ''invalid DSN''),
          \<lparr>c = Some \<lparr>connMaxLifetime = 14400000000000\<rparr>, expire = 86400\<rparr>)"
  using
    Init_nil_handle_panics [where sql_Open = "\<lambda>driver dsn. (None, Some (DriverError ''invalid DSN''))"
      and Ping = "\<lambda>db. None" and lifetime = 14400 and ex = 86400 and connStr = "''dsn''"
      and p = "\<lparr>c = None, expire = 0\<rparr>"]
    Init_nil_handle_panics [where sql_Open = "\<lambda>driver dsn. (Some \<lparr>connMaxLifetime = 0\<rparr>, None)"
      and Ping = "\<lambda>db. None" and lifetime = 14400 and ex = 86400 and connStr = "''dsn''"
      and p = "\<lparr>c = None, expire = 0\<rparr>"]
    Init_nil_handle_panics [where sql_Open =
        "\<lambda>driver dsn. (Some \<lparr>connMaxLifetime = 0\<rparr>, Some (DriverError ''invalid DSN''))"
      and Ping = "\<lambda>db. None" and lifetime = 14400 and ex = 86400 and connStr = "''dsn''"
      and p = "\<lparr>c = None, expire = 0\<rparr>"]
  by (simp add: Init_def SetConnMaxLifetime_def time_Second_def)

subsection \<open>Read\<close>

text \<open>
  C5. \<open>Read(id)\<close>, when its statements execute. If the table has no row for \<open>id\<close>,
  \<open>Read\<close> sends the \<open>SELECT\<close> and then the \<open>INSERT\<close> of a row with an empty blob and
  the clock reading \<open>now\<close> as expiry, and returns a store with that id, an empty
  map, expiry \<open>now\<close> and \<open>dirty\<close> false. If the row of \<open>id\<close> holds a non-empty
  blob that the codec fails to decode, \<open>Read\<close> returns the decode error and no
  store, and sends nothing after the \<open>SELECT\<close>.
\<close>

theorem Read_creates_or_decodes:
  "(\<not> has_row i (session w) \<and> outcome w 0 = None \<and> outcome w 1 = None \<longrightarrow>
      Read DecodeGob now i w =
        (Inr \<lparr>sid = i, data = make_map, expiry = now, dirty = False\<rparr>,
         w\<lparr>issued := issued w @ [SelectDataExpiry i, InsertRow i [] now],
           session := session w @ [\<lparr>row_key = i, row_data = [], row_expiry = now\<rparr>]\<rparr>)) \<and>
   (\<forall>r e. find (\<lambda>r. row_key r = i) (session w) = Some r \<and> row_data r \<noteq> [] \<and>
        DecodeGob (row_data r) = Inl e \<and> outcome w 0 = None \<longrightarrow>
      Read DecodeGob now i w = (Inl e, w\<lparr>issued := issued w @ [SelectDataExpiry i]\<rparr>))"
  by (auto simp: Read_def query_data_expiry_def exec_insert_def NewMysqlStore_def send_def
      outcome_def find_key_None dest: find_key_SomeD split: option.splits)

theorem Read_creates_or_decodes_witness:
  "Read (\<lambda>b. Inr (make_map :: (nat, nat) go_map)) 1000 ''s1'' empty_world =
     (Inr \<lparr>sid = ''s1'', data = make_map, expiry = 1000, dirty = False\<rparr>,
      empty_world
        \<lparr>issued := [SelectDataExpiry ''s1'', InsertRow ''s1'' [] 1000],
         session := [\<lparr>row_key = ''s1'', row_data = [], row_expiry = 1000\<rparr>]\<rparr>) \<and>
   Read (\<lambda>b. Inl (GobError ''unexpected EOF'') :: error + (nat, nat) go_map) 1000 ''s2'' blob_world =
     (Inl (GobError ''unexpected EOF''), blob_world\<lparr>issued := [SelectDataExpiry ''s2'']\<rparr>)"
  using
    Read_creates_or_decodes [where DecodeGob = "\<lambda>b. Inr (make_map :: (nat, nat) go_map)"
      and now = 1000 and i = "''s1''" and w = empty_world]
    Read_creates_or_decodes [where DecodeGob = "\<lambda>b. Inl (GobError ''unexpected EOF'') :: error + (nat, nat) go_map"
      and now = 1000 and i = "''s2''" and w = blob_world]
  by (simp add: empty_world_def blob_world_def outcome_def has_row_def)


subsection \<open>Regenerate\<close>

lemma outcome_logged [simp]: "outcome (w\<lparr>logged := ls\<rparr>) n = outcome w n"
  by (simp add: outcome_def)

lemma exec_insert_run:
  "outcome w 0 = None \<Longrightarrow>
   exec_insert k d e w =
     (if has_row k (session w)
      then (Some duplicate_entry, w\<lparr>issued := issued w @ [InsertRow k d e]\<rparr>)
      else (None, w\<lparr>issued := issued w @ [InsertRow k d e],
                    session := session w @ [\<lparr>row_key = k, row_data = d, row_expiry = e\<rparr>]\<rparr>))"
  by (simp add: exec_insert_def send_def outcome_def)

text \<open>\<open>Exist\<close> is what the schedule says, and so is the second check behind the first.\<close>

lemma Exist_by_schedule:
  "Exist i w =
     (sees w 0 i,
      w\<lparr>issued := issued w @ replicate (queries w 0) (SelectData i),
        logged := logged w @ complaint w 0\<rparr>)"
proof (cases "outcome w 0")
  case None
  then show ?thesis
    by (simp add: Exist_first_try sees_def queries_def complaint_def)
next
  case first: (Some m)
  show ?thesis
  proof (cases "outcome w 1")
    case None
    with first show ?thesis
      by (simp add: Exist_second_try sees_def queries_def complaint_def numeral_2_eq_2)
  next
    case (Some m')
    with first show ?thesis
      by (simp add: Exist_gives_up sees_def queries_def complaint_def numeral_2_eq_2)
  qed
qed

lemma behind_queries:
  "queries (w\<lparr>issued := issued w @ qs, logged := ls\<rparr>) n = queries w (length qs + n)"
  "sees (w\<lparr>issued := issued w @ qs, logged := ls\<rparr>) n i = sees w (length qs + n) i"
  "complaint (w\<lparr>issued := issued w @ qs, logged := ls\<rparr>) n = complaint w (length qs + n)"
  by (simp_all add: queries_def sees_def complaint_def cong: option.case_cong)

lemma both_checks:
  "Exist oldsid (snd (Exist i w)) = (sees w (queries w 0) oldsid, after_checks i oldsid w)"
  by (simp add: Exist_by_schedule [of oldsid] Exist_by_schedule [of i w] behind_queries
      after_checks_def)

lemma after_checks_simps [simp]:
  "session (after_checks i oldsid w) = session w"
  "outcome (after_checks i oldsid w) n = outcome w (checks w + n)"
  by (simp_all add: after_checks_def checks_def outcome_def add.assoc)

text \<open>\<open>Regenerate\<close> behind its two checks.\<close>

lemma Regenerate_behind_checks:
  "Regenerate D now_insert now_read oldsid i w =
     (if sees w 0 i then (Inl (already_exists i), snd (Exist i w))
      else
        (let (err, w3) =
               (if \<not> sees w (queries w 0) oldsid
                then exec_insert oldsid [] now_insert (after_checks i oldsid w)
                else (None, after_checks i oldsid w))
         in case err of
              Some x \<Rightarrow> (Inl x, w3)
            | None \<Rightarrow>
                (let (err, w4) = exec_update_key i oldsid w3
                 in case err of
                      Some x \<Rightarrow> (Inl x, w4)
                    | None \<Rightarrow> Read D now_read i w4)))"
proof -
  have first: "Exist i w = (sees w 0 i, snd (Exist i w))"
    by (simp add: Exist_by_schedule)
  show ?thesis
    unfolding Regenerate_def by (subst first) (simp add: both_checks)
qed

text \<open>The ways out of \<open>Regenerate\<close>, one lemma each.\<close>

lemma Regenerate_conflict:
  assumes "sees w 0 i"
  shows "Regenerate D now_insert now_read oldsid i w =
     (Inl (already_exists i),
      w\<lparr>issued := issued w @ replicate (queries w 0) (SelectData i),
        logged := logged w @ complaint w 0\<rparr>)"
  using assms by (simp add: Regenerate_behind_checks Exist_by_schedule)

lemma Regenerate_insert_fails:
  assumes "\<not> sees w 0 i" "\<not> sees w (queries w 0) oldsid" "outcome w (checks w) = Some m"
  shows "Regenerate D now_insert now_read oldsid i w =
     (Inl (DriverError m),
      (after_checks i oldsid w)
        \<lparr>issued := issued (after_checks i oldsid w) @ [InsertRow oldsid [] now_insert]\<rparr>)"
  using assms by (simp add: Regenerate_behind_checks statement_fails)

lemma Regenerate_insert_duplicate:
  assumes "\<not> sees w 0 i" "\<not> sees w (queries w 0) oldsid" "outcome w (checks w) = None"
    "has_row oldsid (session w)"
  shows "Regenerate D now_insert now_read oldsid i w =
     (Inl duplicate_entry,
      (after_checks i oldsid w)
        \<lparr>issued := issued (after_checks i oldsid w) @ [InsertRow oldsid [] now_insert]\<rparr>)"
  using assms by (simp add: Regenerate_behind_checks exec_insert_run)

lemma Regenerate_rename_fails_after_insert:
  assumes "\<not> sees w 0 i" "\<not> sees w (queries w 0) oldsid" "outcome w (checks w) = None"
    "\<not> has_row oldsid (session w)" "outcome w (checks w + 1) = Some m"
  shows "Regenerate D now_insert now_read oldsid i w =
     (Inl (DriverError m),
      (after_checks i oldsid w)
        \<lparr>issued := issued (after_checks i oldsid w) @
           [InsertRow oldsid [] now_insert, UpdateKey i oldsid],
         session := session w @
           [\<lparr>row_key = oldsid, row_data = [], row_expiry = now_insert\<rparr>]\<rparr>)"
  using assms by (simp add: Regenerate_behind_checks exec_insert_run statement_fails)

lemma Regenerate_rename_duplicate_after_insert:
  assumes "\<not> sees w 0 i" "\<not> sees w (queries w 0) oldsid" "outcome w (checks w) = None"
    "\<not> has_row oldsid (session w)" "outcome w (checks w + 1) = None" "has_row i (session w)"
  shows "Regenerate D now_insert now_read oldsid i w =
     (Inl duplicate_entry,
      (after_checks i oldsid w)
        \<lparr>issued := issued (after_checks i oldsid w) @
           [InsertRow oldsid [] now_insert, UpdateKey i oldsid],
         session := session w @
           [\<lparr>row_key = oldsid, row_data = [], row_expiry = now_insert\<rparr>]\<rparr>)"
proof -
  have "i \<noteq> oldsid" using assms by auto
  then show ?thesis
    using assms
    by (simp add: Regenerate_behind_checks exec_insert_run exec_update_key_ok has_row_append
        has_row_single)
qed

lemma Regenerate_read_fails:
  assumes "\<not> sees w 0 i" "\<not> sees w (queries w 0) oldsid" "outcome w (checks w) = None"
    "\<not> has_row oldsid (session w)" "outcome w (checks w + 1) = None"
    "\<not> has_row i (session w)" "outcome w (checks w + 2) = Some m"
  shows "Regenerate D now_insert now_read oldsid i w =
     (Inl (DriverError m),
      (after_checks i oldsid w)
        \<lparr>issued := issued (after_checks i oldsid w) @
           [InsertRow oldsid [] now_insert, UpdateKey i oldsid, SelectDataExpiry i],
         session := session w @ [\<lparr>row_key = i, row_data = [], row_expiry = now_insert\<rparr>]\<rparr>)"
  using assms
  by (cases "i = oldsid")
    (simp_all add: eval_nat_numeral Regenerate_behind_checks exec_insert_run exec_update_key_ok
      has_row_append has_row_single Read_def statement_fails set_key_absent set_key_def)

lemma Regenerate_placeholder:
  assumes "\<not> sees w 0 i" "\<not> sees w (queries w 0) oldsid" "outcome w (checks w) = None"
    "\<not> has_row oldsid (session w)" "outcome w (checks w + 1) = None"
    "\<not> has_row i (session w)" "outcome w (checks w + 2) = None"
  shows "Regenerate D now_insert now_read oldsid i w =
     (Inr \<lparr>sid = i, data = make_map, expiry = now_insert, dirty = False\<rparr>,
      (after_checks i oldsid w)
        \<lparr>issued := issued (after_checks i oldsid w) @
           [InsertRow oldsid [] now_insert, UpdateKey i oldsid, SelectDataExpiry i],
         session := session w @ [\<lparr>row_key = i, row_data = [], row_expiry = now_insert\<rparr>]\<rparr>)"
  using assms
  by (cases "i = oldsid")
    (simp_all add: eval_nat_numeral Regenerate_behind_checks exec_insert_run exec_update_key_ok
      has_row_append has_row_single Read_def query_data_expiry_ok set_key_absent set_key_def
      find_key_append NewMysqlStore_def)

lemma Regenerate_rename_fails:
  assumes "\<not> sees w 0 i" "sees w (queries w 0) oldsid" "outcome w (checks w) = Some m"
  shows "Regenerate D now_insert now_read oldsid i w =
     (Inl (DriverError m),
      (after_checks i oldsid w)
        \<lparr>issued := issued (after_checks i oldsid w) @ [UpdateKey i oldsid]\<rparr>)"
  using assms by (simp add: Regenerate_behind_checks statement_fails)

lemma Regenerate_rename_duplicate:
  assumes "\<not> sees w 0 i" "sees w (queries w 0) oldsid" "outcome w (checks w) = None"
    "i \<noteq> oldsid" "has_row i (session w)"
  shows "Regenerate D now_insert now_read oldsid i w =
     (Inl duplicate_entry,
      (after_checks i oldsid w)
        \<lparr>issued := issued (after_checks i oldsid w) @ [UpdateKey i oldsid]\<rparr>)"
proof -
  have "has_row oldsid (session w)"
    using assms(2) by (simp add: sees_def)
  then show ?thesis
    using assms by (simp add: Regenerate_behind_checks exec_update_key_ok)
qed

lemma Regenerate_rename_then_Read:
  assumes "\<not> sees w 0 i" "sees w (queries w 0) oldsid" "outcome w (checks w) = None"
    "i = oldsid \<or> \<not> has_row i (session w)"
  shows "Regenerate D now_insert now_read oldsid i w =
     Read D now_read i
       ((after_checks i oldsid w)
          \<lparr>issued := issued (after_checks i oldsid w) @ [UpdateKey i oldsid],
           session := map (set_key i oldsid) (session w)\<rparr>)"
  using assms by (auto simp: Regenerate_behind_checks exec_update_key_ok)

text \<open>
  C6, as stated: when a row for the new id exists, \<open>Regenerate\<close> returns the
  conflict error and changes no row; and the database error of any step is
  propagated. It is not so when the existence queries fail: \<open>Exist\<close> logs their
  errors and answers \<open>false\<close>. Here the table holds a row for \<open>new\<close> and the first
  two statements fail. \<open>Regenerate\<close> takes \<open>new\<close> for free, finds no row for
  \<open>old\<close>, inserts the placeholder, and ends with the server's duplicate-entry
  error of the rename: no conflict error, and one more row in the table.
\<close>

theorem Regenerate_unseen_row_counterexample:
  "has_row ''new'' (session taken_world) \<and>
   fst (Regenerate (\<lambda>b. Inr (make_map :: (nat, nat) go_map)) 1000 1001 ''old'' ''new''
       taken_world) = Inl duplicate_entry \<and>
   duplicate_entry \<noteq> already_exists ''new'' \<and>
   session (snd (Regenerate (\<lambda>b. Inr (make_map :: (nat, nat) go_map)) 1000 1001 ''old'' ''new''
       taken_world)) =
     [\<lparr>row_key = ''new'', row_data = [9], row_expiry = 500\<rparr>,
      \<lparr>row_key = ''old'', row_data = [], row_expiry = 1000\<rparr>] \<and>
   logged (snd (Regenerate (\<lambda>b. Inr (make_map :: (nat, nat) go_map)) 1000 1001 ''old'' ''new''
       taken_world)) =
     [''session/mysql: error checking if session exists: invalid connection'']"
  by (simp add: Regenerate_def Exist_def queryExists_def query_data_def exec_insert_def
      exec_update_key_def send_def log_Printf_def taken_world_def has_row_def duplicate_entry_def
      already_exists_def)

text \<open>
  C6, amended. \<open>Regenerate(oldID, newID)\<close> runs the existence check on \<open>newID\<close> and,
  if that reports no row, on \<open>oldID\<close>; a query error inside a check is not
  propagated: the query is retried once, then the error is logged and read as
  "no row". If the check on \<open>newID\<close> reports a row (a row exists and the query
  executes, at once or at the retry), \<open>Regenerate\<close> returns the conflict error and
  changes no row. Otherwise, if the check on \<open>oldID\<close> reports no row it first
  inserts a placeholder row for \<open>oldID\<close> (empty blob, current time as expiry),
  then renames the key from \<open>oldID\<close> to \<open>newID\<close>, and on success returns what a
  fresh \<open>Read(newID)\<close> returns, in the placeholder case a store with an empty
  map. A database error of the \<open>INSERT\<close>, of the rename or of the \<open>Read\<close>, the
  duplicate-entry error for a row that a check did not see included, ends the
  call and is the error returned.

  In the theorem the two checks send \<open>checks w\<close> queries, so the statement behind
  them is the one with that number, and \<open>after_checks\<close> is the state they leave:
  the table as it was, the queries in the history, the complaints in the log.
\<close>

theorem Regenerate_steps:
  "(sees w 0 i \<longrightarrow>
      Regenerate D now_insert now_read oldsid i w =
        (Inl (already_exists i),
         w\<lparr>issued := issued w @ replicate (queries w 0) (SelectData i),
           logged := logged w @ complaint w 0\<rparr>)) \<and>
   (\<not> sees w 0 i \<and> \<not> sees w (queries w 0) oldsid \<longrightarrow>
      (\<forall>m. outcome w (checks w) = Some m \<longrightarrow>
         Regenerate D now_insert now_read oldsid i w =
           (Inl (DriverError m),
            (after_checks i oldsid w)
              \<lparr>issued := issued (after_checks i oldsid w) @
                 [InsertRow oldsid [] now_insert]\<rparr>)) \<and>
      (outcome w (checks w) = None \<and> has_row oldsid (session w) \<longrightarrow>
         Regenerate D now_insert now_read oldsid i w =
           (Inl duplicate_entry,
            (after_checks i oldsid w)
              \<lparr>issued := issued (after_checks i oldsid w) @
                 [InsertRow oldsid [] now_insert]\<rparr>)) \<and>
      (outcome w (checks w) = None \<and> \<not> has_row oldsid (session w) \<longrightarrow>
         (\<forall>m. outcome w (checks w + 1) = Some m \<longrightarrow>
            Regenerate D now_insert now_read oldsid i w =
              (Inl (DriverError m),
               (after_checks i oldsid w)
                 \<lparr>issued := issued (after_checks i oldsid w) @
                    [InsertRow oldsid [] now_insert, UpdateKey i oldsid],
                  session := session w @
                    [\<lparr>row_key = oldsid, row_data = [], row_expiry = now_insert\<rparr>]\<rparr>)) \<and>
         (outcome w (checks w + 1) = None \<and> has_row i (session w) \<longrightarrow>
            Regenerate D now_insert now_read oldsid i w =
              (Inl duplicate_entry,
               (after_checks i oldsid w)
                 \<lparr>issued := issued (after_checks i oldsid w) @
                    [InsertRow oldsid [] now_insert, UpdateKey i oldsid],
                  session := session w @
                    [\<lparr>row_key = oldsid, row_data = [], row_expiry = now_insert\<rparr>]\<rparr>)) \<and>
         (outcome w (checks w + 1) = None \<and> \<not> has_row i (session w) \<longrightarrow>
            (\<forall>m. outcome w (checks w + 2) = Some m \<longrightarrow>
               Regenerate D now_insert now_read oldsid i w =
                 (Inl (DriverError m),
                  (after_checks i oldsid w)
                    \<lparr>issued := issued (after_checks i oldsid w) @
                       [InsertRow oldsid [] now_insert, UpdateKey i oldsid, SelectDataExpiry i],
                     session := session w @
                       [\<lparr>row_key = i, row_data = [], row_expiry = now_insert\<rparr>]\<rparr>)) \<and>
            (outcome w (checks w + 2) = None \<longrightarrow>
               Regenerate D now_insert now_read oldsid i w =
                 (Inr \<lparr>sid = i, data = make_map, expiry = now_insert, dirty = False\<rparr>,
                  (after_checks i oldsid w)
                    \<lparr>issued := issued (after_checks i oldsid w) @
                       [InsertRow oldsid [] now_insert, UpdateKey i oldsid, SelectDataExpiry i],
                     session := session w @
                       [\<lparr>row_key = i, row_data = [], row_expiry = now_insert\<rparr>]\<rparr>))))) \<and>
   (\<not> sees w 0 i \<and> sees w (queries w 0) oldsid \<longrightarrow>
      (\<forall>m. outcome w (checks w) = Some m \<longrightarrow>
         Regenerate D now_insert now_read oldsid i w =
           (Inl (DriverError m),
            (after_checks i oldsid w)
              \<lparr>issued := issued (after_checks i oldsid w) @ [UpdateKey i oldsid]\<rparr>)) \<and>
      (outcome w (checks w) = None \<and> i \<noteq> oldsid \<and> has_row i (session w) \<longrightarrow>
         Regenerate D now_insert now_read oldsid i w =
           (Inl duplicate_entry,
            (after_checks i oldsid w)
              \<lparr>issued := issued (after_checks i oldsid w) @ [UpdateKey i oldsid]\<rparr>)) \<and>
      (outcome w (checks w) = None \<and> (i = oldsid \<or> \<not> has_row i (session w)) \<longrightarrow>
         Regenerate D now_insert now_read oldsid i w =
           Read D now_read i
             ((after_checks i oldsid w)
                \<lparr>issued := issued (after_checks i oldsid w) @ [UpdateKey i oldsid],
                 session := map (set_key i oldsid) (session w)\<rparr>)))"
  by (intro conjI impI allI; (elim conjE)?;
      rule Regenerate_conflict Regenerate_insert_fails Regenerate_insert_duplicate
        Regenerate_rename_fails_after_insert Regenerate_rename_duplicate_after_insert
        Regenerate_read_fails Regenerate_placeholder Regenerate_rename_fails
        Regenerate_rename_duplicate Regenerate_rename_then_Read;
      assumption)

text \<open>
  One call for each way out, in the order of the theorem: the conflict; on the
  placeholder path the failed \<open>INSERT\<close>, the \<open>INSERT\<close> of a row for \<open>old\<close> that the
  check did not see, the failed rename, the rename onto a row for \<open>new\<close> that the
  check did not see, the failed \<open>Read\<close>, and the store, once with every query
  executing and once with the check on the old id retried; on the path of an
  existing row the failed rename, the rename onto an unseen row, and the \<open>Read\<close>.
\<close>

theorem Regenerate_steps_witness:
  "fst (Regenerate (\<lambda>b. Inr (make_map :: (nat, nat) go_map)) 1000 1001 ''s0'' ''s1''
       one_row_world) = Inl (already_exists ''s1'') \<and>
   session (snd (Regenerate (\<lambda>b. Inr (make_map :: (nat, nat) go_map)) 1000 1001 ''s0'' ''s1''
       one_row_world)) = session one_row_world \<and>
   fst (Regenerate (\<lambda>b. Inr (make_map :: (nat, nat) go_map)) 1000 1001 ''old'' ''new''
       (failing_at 2 empty_world)) = Inl (DriverError ''invalid connection'') \<and>
   session (snd (Regenerate (\<lambda>b. Inr (make_map :: (nat, nat) go_map)) 1000 1001 ''old'' ''new''
       (failing_at 2 empty_world))) = [] \<and>
   fst (Regenerate (\<lambda>b. Inr (make_map :: (nat, nat) go_map)) 2000 2001 ''s1'' ''s2''
       (failing_on [1, 2] one_row_world)) = Inl duplicate_entry \<and>
   session (snd (Regenerate (\<lambda>b. Inr (make_map :: (nat, nat) go_map)) 2000 2001 ''s1'' ''s2''
       (failing_on [1, 2] one_row_world))) = session one_row_world \<and>
   fst (Regenerate (\<lambda>b. Inr (make_map :: (nat, nat) go_map)) 1000 1001 ''old'' ''new''
       (failing_at 3 empty_world)) = Inl (DriverError ''invalid connection'') \<and>
   session (snd (Regenerate (\<lambda>b. Inr (make_map :: (nat, nat) go_map)) 1000 1001 ''old'' ''new''
       (failing_at 3 empty_world))) = [\<lparr>row_key = ''old'', row_data = [], row_expiry = 1000\<rparr>] \<and>
   fst (Regenerate (\<lambda>b. Inr (make_map :: (nat, nat) go_map)) 1000 1001 ''old'' ''new''
       taken_world) = Inl duplicate_entry \<and>
   fst (Regenerate (\<lambda>b. Inr (make_map :: (nat, nat) go_map)) 1000 1001 ''old'' ''new''
       (failing_at 4 empty_world)) = Inl (DriverError ''invalid connection'') \<and>
   session (snd (Regenerate (\<lambda>b. Inr (make_map :: (nat, nat) go_map)) 1000 1001 ''old'' ''new''
       (failing_at 4 empty_world))) = [\<lparr>row_key = ''new'', row_data = [], row_expiry = 1000\<rparr>] \<and>
   Regenerate (\<lambda>b. Inr (make_map :: (nat, nat) go_map)) 1000 1001 ''old'' ''new'' empty_world =
     (Inr \<lparr>sid = ''new'', data = make_map, expiry = 1000, dirty = False\<rparr>,
      empty_world
        \<lparr>issued := [SelectData ''new'', SelectData ''old'', InsertRow ''old'' [] 1000,
                    UpdateKey ''new'' ''old'', SelectDataExpiry ''new''],
         session := [\<lparr>row_key = ''new'', row_data = [], row_expiry = 1000\<rparr>]\<rparr>) \<and>
   Regenerate (\<lambda>b. Inr (make_map :: (nat, nat) go_map)) 1000 1001 ''old'' ''new''
       (failing_at 1 empty_world) =
     (Inr \<lparr>sid = ''new'', data = make_map, expiry = 1000, dirty = False\<rparr>,
      failing_at 1 empty_world
        \<lparr>issued := [SelectData ''new'', SelectData ''old'', SelectData ''old'',
                    InsertRow ''old'' [] 1000, UpdateKey ''new'' ''old'',
                    SelectDataExpiry ''new''],
         session := [\<lparr>row_key = ''new'', row_data = [], row_expiry = 1000\<rparr>]\<rparr>) \<and>
   fst (Regenerate (\<lambda>b. Inr (make_map :: (nat, nat) go_map)) 2000 2001 ''s1'' ''s2''
       (failing_at 2 one_row_world)) = Inl (DriverError ''invalid connection'') \<and>
   session (snd (Regenerate (\<lambda>b. Inr (make_map :: (nat, nat) go_map)) 2000 2001 ''s1'' ''s2''
       (failing_at 2 one_row_world))) = session one_row_world \<and>
   fst (Regenerate (\<lambda>b. Inr (make_map :: (nat, nat) go_map)) 1000 1001 ''old'' ''new''
       both_taken_world) = Inl duplicate_entry \<and>
   session (snd (Regenerate (\<lambda>b. Inr (make_map :: (nat, nat) go_map)) 1000 1001 ''old'' ''new''
       both_taken_world)) = session both_taken_world \<and>
   Regenerate (\<lambda>b. Inr (make_map :: (nat, nat) go_map)) 2000 2001 ''s1'' ''s2'' one_row_world =
     (Inr \<lparr>sid = ''s2'', data = make_map, expiry = 1000, dirty = False\<rparr>,
      one_row_world
        \<lparr>issued := [SelectData ''s2'', SelectData ''s1'', UpdateKey ''s2'' ''s1'',
                    SelectDataExpiry ''s2''],
         session := [\<lparr>row_key = ''s2'', row_data = [], row_expiry = 1000\<rparr>]\<rparr>)"
  using
    Regenerate_steps [where D = "\<lambda>b. Inr (make_map :: (nat, nat) go_map)" and now_insert = 1000
      and now_read = 1001 and oldsid = "''s0''" and i = "''s1''" and w = one_row_world]
    Regenerate_steps [where D = "\<lambda>b. Inr (make_map :: (nat, nat) go_map)" and now_insert = 1000
      and now_read = 1001 and oldsid = "''old''" and i = "''new''"
      and w = "failing_at 2 empty_world"]
    Regenerate_steps [where D = "\<lambda>b. Inr (make_map :: (nat, nat) go_map)" and now_insert = 2000
      and now_read = 2001 and oldsid = "''s1''" and i = "''s2''"
      and w = "failing_on [1, 2] one_row_world"]
    Regenerate_steps [where D = "\<lambda>b. Inr (make_map :: (nat, nat) go_map)" and now_insert = 1000
      and now_read = 1001 and oldsid = "''old''" and i = "''new''"
      and w = "failing_at 3 empty_world"]
    Regenerate_steps [where D = "\<lambda>b. Inr (make_map :: (nat, nat) go_map)" and now_insert = 1000
      and now_read = 1001 and oldsid = "''old''" and i = "''new''" and w = taken_world]
    Regenerate_steps [where D = "\<lambda>b. Inr (make_map :: (nat, nat) go_map)" and now_insert = 1000
      and now_read = 1001 and oldsid = "''old''" and i = "''new''"
      and w = "failing_at 4 empty_world"]
    Regenerate_steps [where D = "\<lambda>b. Inr (make_map :: (nat, nat) go_map)" and now_insert = 1000
      and now_read = 1001 and oldsid = "''old''" and i = "''new''" and w = empty_world]
    Regenerate_steps [where D = "\<lambda>b. Inr (make_map :: (nat, nat) go_map)" and now_insert = 1000
      and now_read = 1001 and oldsid = "''old''" and i = "''new''"
      and w = "failing_at 1 empty_world"]
    Regenerate_steps [where D = "\<lambda>b. Inr (make_map :: (nat, nat) go_map)" and now_insert = 2000
      and now_read = 2001 and oldsid = "''s1''" and i = "''s2''"
      and w = "failing_at 2 one_row_world"]
    Regenerate_steps [where D = "\<lambda>b. Inr (make_map :: (nat, nat) go_map)" and now_insert = 1000
      and now_read = 1001 and oldsid = "''old''" and i = "''new''" and w = both_taken_world]
    Regenerate_steps [where D = "\<lambda>b. Inr (make_map :: (nat, nat) go_map)" and now_insert = 2000
      and now_read = 2001 and oldsid = "''s1''" and i = "''s2''" and w = one_row_world]
  by (simp add: one_row_world_def empty_world_def taken_world_def both_taken_world_def
      failing_at_def failing_on_def outcome_def sees_def queries_def complaint_def checks_def
      after_checks_def has_row_def set_key_def Read_def query_data_expiry_def send_def
      NewMysqlStore_def eval_nat_numeral)

end
